theory Spec2Isabelle
  imports Complex_Main
begin

section \<open>The focus monitor: trigger predicate, detection loop and App shell\<close>

text \<open>
  The development embeds two source files: \<^verbatim>\<open>WorkScreen.jsx\<close> (the model loader, the
  self-rescheduling detection loop \<^verbatim>\<open>runDetection\<close> and the effect that starts and stops
  it) and the App shell with its \<^verbatim>\<open>navigate\<close> function.

  JavaScript numbers are modelled as \<^typ>\<open>real\<close>: the source only compares scores and
  coordinates and halves the frame height, and on finite doubles the order is the order
  of the reals while halving is exact. Strings are \<^typ>\<open>string\<close>, an object used as a
  bag of named fields is a map from field names.
\<close>

subsection \<open>Constants of WorkScreen.jsx (lines 9 to 11 and 21)\<close>

definition DETECTION_INTERVAL_MS :: nat where
  "DETECTION_INTERVAL_MS = 400"

definition CONFIDENCE_THRESHOLD :: real where
  "CONFIDENCE_THRESHOLD = 0.65"

definition UPPER_HALF_THRESHOLD :: real where
  "UPPER_HALF_THRESHOLD = 0.5"

definition SCREENS_WORK :: string where
  "SCREENS_WORK = ''work''"

definition SCREENS_ALERT :: string where
  "SCREENS_ALERT = ''alert''"

definition SCREENS_MEME :: string where
  "SCREENS_MEME = ''meme''"

definition SCREENS_STATS :: string where
  "SCREENS_STATS = ''stats''"

subsection \<open>Detections and the trigger check (lines 53 to 71)\<close>

text \<open>
  One element of the array returned by \<^verbatim>\<open>model.detect\<close>: a class label, a score and the
  box \<^verbatim>\<open>[x, y, width, height]\<close>.
\<close>

record prediction =
  className :: string
  score :: real
  bbox :: "real \<times> real \<times> real \<times> real"

text \<open>\<^verbatim>\<open>Array.prototype.some\<close>: left to right, stopping at the first hit.\<close>

fun some :: "('a \<Rightarrow> bool) \<Rightarrow> 'a list \<Rightarrow> bool" where
  "some f [] = False"
| "some f (x # xs) = (if f x then True else some f xs)"

definition isPhone :: "prediction \<Rightarrow> bool" where
  "isPhone p \<longleftrightarrow> className p = ''cell phone'' \<or> className p = ''remote''"

definition isHighConfidence :: "prediction \<Rightarrow> bool" where
  "isHighConfidence p \<longleftrightarrow> score p > CONFIDENCE_THRESHOLD"

definition isUpperHalf :: "prediction \<Rightarrow> real \<Rightarrow> bool" where
  "isUpperHalf p videoHeight =
     (case bbox p of (x, y, width, height) \<Rightarrow> y < videoHeight * UPPER_HALF_THRESHOLD)"

text \<open>
  The value of \<^verbatim>\<open>distracted\<close> at line 53; the callback's \<^verbatim>\<open>console.log\<close> has no effect
  on it.
\<close>

definition distracted :: "prediction list \<Rightarrow> real \<Rightarrow> bool" where
  "distracted predictions videoHeight =
     some (\<lambda>p. isPhone p \<and> isHighConfidence p \<and> isUpperHalf p videoHeight) predictions"

subsection \<open>The App shell (state cells and \<^verbatim>\<open>navigate\<close>)\<close>

text \<open>
  The three \<^verbatim>\<open>useState\<close> cells of \<^verbatim>\<open>App\<close>. The payload \<^verbatim>\<open>data\<close> is an object read
  through its field \<^verbatim>\<open>insult\<close> only; an omitted argument takes the default \<^verbatim>\<open>{}\<close>.
\<close>

record app =
  currentScreen :: string
  insult :: string
  distractionCount :: nat

type_synonym data = "string \<rightharpoonup> string"

definition app_init :: app where
  "app_init = \<lparr>currentScreen = SCREENS_WORK, insult = '''', distractionCount = 0\<rparr>"

text \<open>\<^verbatim>\<open>a || b\<close> on a string field that may be missing: the empty string is falsy.\<close>

definition or_default :: "string option \<Rightarrow> string \<Rightarrow> string" where
  "or_default v d = (case v of None \<Rightarrow> d | Some s \<Rightarrow> if s = [] then d else s)"

definition navigate :: "string \<Rightarrow> data option \<Rightarrow> app \<Rightarrow> app" where
  "navigate screen arg a =
     (let data = (case arg of None \<Rightarrow> Map.empty | Some d \<Rightarrow> d);
          a1 = (if screen = SCREENS_ALERT
                then a\<lparr>distractionCount := distractionCount a + 1,
                       insult := or_default (data ''insult'') ''You were caught!''\<rparr>
                else a)
      in a1\<lparr>currentScreen := screen\<rparr>)"

subsection \<open>The WorkScreen component: state cells, timers and pending calls\<close>

text \<open>
  The component runs on the browser's event loop. Its behaviour is modelled as a step
  function on a \<open>world\<close>: the two state cells \<^verbatim>\<open>model\<close> and \<^verbatim>\<open>status\<close>, the ref
  \<^verbatim>\<open>webcamRef.current\<close> (present or null), the browser's table of pending timers, the
  calls of \<^verbatim>\<open>runDetection\<close> suspended at \<^verbatim>\<open>await model.detect(video)\<close>, the local
  \<^verbatim>\<open>timerId\<close> of the live effect closure, and what the component did to its
  collaborators: the calls of the \<^verbatim>\<open>navigate\<close> prop, of the loader, of \<^verbatim>\<open>detect\<close>, the
  number of \<^verbatim>\<open>runDetection\<close> bodies entered (\<open>ticks\<close>) and the promises of
  \<^verbatim>\<open>runDetection\<close> that rejected with nobody awaiting them.

  The props \<^verbatim>\<open>navigate\<close> and \<^verbatim>\<open>setInsult\<close> stay the same while the component is
  mounted: \<^verbatim>\<open>App\<close> renders again only when a navigation changes its state, and every
  such navigation replaces the WorkScreen. So \<^verbatim>\<open>runDetection\<close> and the loop effect
  change with \<^verbatim>\<open>model\<close> alone. Time is a clock in milliseconds moved by the events.
\<close>

datatype model_handle = CocoSsd

text \<open>What a tick reads from \<^verbatim>\<open>webcamRef.current.video\<close>.\<close>

record video =
  readyState :: nat
  videoHeight :: real

text \<open>How the promise of \<^verbatim>\<open>model.detect(video)\<close> settles.\<close>

datatype detect_outcome = Resolves "prediction list" | Rejects

text \<open>
  A pending timer. Every callback handed to \<^verbatim>\<open>setTimeout\<close> is a \<^verbatim>\<open>runDetection\<close>
  closure; closures differ in the \<^verbatim>\<open>model\<close> they captured.
\<close>

record timer =
  timer_id :: nat
  due :: nat
  callback_model :: "model_handle option"

text \<open>A call of \<^verbatim>\<open>runDetection\<close> suspended at line 50, with the locals it resumes with.\<close>

record suspended =
  sus_model :: "model_handle option"
  sus_videoHeight :: real

record world =
  now :: nat
  mounted :: bool
  model :: "model_handle option"
  status :: string
  webcamRef_current :: bool
  loading :: bool
  timerId :: "nat option"
  timers :: "timer list"
  next_id :: nat
  awaiting :: "suspended list"
  nav_log :: "(string \<times> data option) list"
  load_calls :: nat
  detect_calls :: nat
  ticks :: nat
  unhandled_rejections :: nat

definition mockInsult :: string where
  "mockInsult =
     ''Seriously, another tab? Truly groundbreaking procrastination. Get back to the code!''"

text \<open>
  \<^verbatim>\<open>setTimeout\<close> returns a fresh positive handle and adds the timer; \<^verbatim>\<open>clearTimeout\<close>
  removes the timer with that handle, if it is still pending.
\<close>

definition setTimeout :: "model_handle option \<Rightarrow> nat \<Rightarrow> world \<Rightarrow> nat \<times> world" where
  "setTimeout m delay w =
     (next_id w,
      w\<lparr>timers := timers w @ [\<lparr>timer_id = next_id w, due = now w + delay, callback_model = m\<rparr>],
        next_id := next_id w + 1\<rparr>)"

definition clearTimeout :: "nat \<Rightarrow> world \<Rightarrow> world" where
  "clearTimeout i w = w\<lparr>timers := filter (\<lambda>t. timer_id t \<noteq> i) (timers w)\<rparr>"

text \<open>The \<^verbatim>\<open>navigate\<close> prop belongs to the parent; the component's calls are recorded.\<close>

definition navigate_prop :: "string \<Rightarrow> data option \<Rightarrow> world \<Rightarrow> world" where
  "navigate_prop screen arg w = w\<lparr>nav_log := nav_log w @ [(screen, arg)]\<rparr>"

subsection \<open>\<^verbatim>\<open>runDetection\<close> (lines 41 to 92)\<close>

text \<open>
  From entry to the first suspension: the guard of line 43, then either the call of
  \<^verbatim>\<open>detect\<close> (the function suspends) or the \<^verbatim>\<open>setTimeout\<close> of line 91.
\<close>

definition runDetection_begin :: "model_handle option \<Rightarrow> video \<Rightarrow> world \<Rightarrow> world" where
  "runDetection_begin m v w0 =
     (let w = w0\<lparr>ticks := ticks w0 + 1\<rparr> in
      if m \<noteq> None \<and> webcamRef_current w \<and> readyState v = 4
      then w\<lparr>detect_calls := detect_calls w + 1,
             awaiting := awaiting w @ [\<lparr>sus_model = m, sus_videoHeight = videoHeight v\<rparr>]\<rparr>
      else snd (setTimeout m DETECTION_INTERVAL_MS w))"

text \<open>
  From the settling of \<^verbatim>\<open>detect\<close> to the end. There is no \<^verbatim>\<open>try\<close> around the
  \<^verbatim>\<open>await\<close>: a rejection leaves the function at once, rejecting its own promise, which
  nobody holds. Otherwise lines 53 to 91: navigate and return, or \<^verbatim>\<open>setTimeout\<close>.
\<close>

definition runDetection_resume :: "suspended \<Rightarrow> detect_outcome \<Rightarrow> world \<Rightarrow> world" where
  "runDetection_resume c outcome w =
     (case outcome of
        Rejects \<Rightarrow> w\<lparr>unhandled_rejections := unhandled_rejections w + 1\<rparr>
      | Resolves predictions \<Rightarrow>
          if distracted predictions (sus_videoHeight c)
          then navigate_prop SCREENS_ALERT (Some [''insult'' \<mapsto> mockInsult]) w
          else snd (setTimeout (sus_model c) DETECTION_INTERVAL_MS w))"

subsection \<open>The loop-management effect (lines 96 to 109)\<close>

text \<open>
  The effect body stores the handle of the one timer it sets in its local \<^verbatim>\<open>timerId\<close>;
  its cleanup clears that handle when it is truthy (a handle is a number, \<open>0\<close> is falsy).
\<close>

definition loop_effect :: "world \<Rightarrow> world" where
  "loop_effect w =
     (case model w of
        None \<Rightarrow> w\<lparr>timerId := None\<rparr>
      | Some m \<Rightarrow>
          (case setTimeout (model w) DETECTION_INTERVAL_MS w of
             (i, w') \<Rightarrow> w'\<lparr>timerId := Some i\<rparr>))"

definition loop_cleanup :: "world \<Rightarrow> world" where
  "loop_cleanup w =
     (case timerId w of
        None \<Rightarrow> w
      | Some i \<Rightarrow> if i \<noteq> 0 then clearTimeout i w else w)"

subsection \<open>Mounting, model loading (lines 24 to 38) and the event loop\<close>

text \<open>
  After the first render and its effects: \<^verbatim>\<open>loadModel()\<close> has been called once and is
  pending, the loop effect has run with \<^verbatim>\<open>model = null\<close> and set no timer.
\<close>

definition mount :: world where
  "mount = loop_effect
     \<lparr>now = 0, mounted = True, model = None, status = ''Loading AI Model...'',
      webcamRef_current = True, loading = True, timerId = None, timers = [], next_id = 1,
      awaiting = [], nav_log = [], load_calls = 1, detect_calls = 0, ticks = 0,
      unhandled_rejections = 0\<rparr>"

text \<open>
  The awaits of \<^verbatim>\<open>loadModel\<close> settle: \<open>True\<close> when \<^verbatim>\<open>tf.ready()\<close> and
  \<^verbatim>\<open>cocoSsd.load\<close> both resolved, \<open>False\<close> when one rejected and the \<^verbatim>\<open>catch\<close> ran.
  Setting \<^verbatim>\<open>model\<close> changes the dependencies of \<^verbatim>\<open>runDetection\<close> and of the loop effect,
  so the old effect is cleaned up and the effect runs again; setting \<^verbatim>\<open>status\<close> alone
  changes neither. State setters of an unmounted component do nothing.
\<close>

definition loadModel_settles :: "bool \<Rightarrow> world \<Rightarrow> world" where
  "loadModel_settles ok w0 =
     (if \<not> loading w0 then w0
      else let w = w0\<lparr>loading := False\<rparr> in
        if \<not> mounted w then w
        else if ok
        then loop_effect (loop_cleanup (w\<lparr>model := Some CocoSsd, status := ''AI Ready. Get to work!''\<rparr>))
        else w\<lparr>status := ''Error loading AI. Check console.''\<rparr>)"

text \<open>A pending timer whose time has come leaves the table and its callback runs.\<close>

definition timer_fires :: "nat \<Rightarrow> video \<Rightarrow> world \<Rightarrow> world" where
  "timer_fires i v w =
     (case find (\<lambda>t. timer_id t = i) (timers w) of
        None \<Rightarrow> w
      | Some t \<Rightarrow>
          if now w < due t then w
          else runDetection_begin (callback_model t) v
                 (w\<lparr>timers := filter (\<lambda>t. timer_id t \<noteq> i) (timers w)\<rparr>))"

definition detect_settles :: "nat \<Rightarrow> detect_outcome \<Rightarrow> world \<Rightarrow> world" where
  "detect_settles k outcome w =
     (if k < length (awaiting w)
      then runDetection_resume (awaiting w ! k) outcome
             (w\<lparr>awaiting := take k (awaiting w) @ drop (Suc k) (awaiting w)\<rparr>)
      else w)"

text \<open>Unmounting runs the cleanup of the live effect and detaches the ref.\<close>

definition unmount :: "world \<Rightarrow> world" where
  "unmount w =
     (if mounted w
      then (loop_cleanup w)\<lparr>mounted := False, webcamRef_current := False\<rparr>
      else w)"

datatype event =
    Elapse nat
  | LoadSettles bool
  | TimerFires nat video
  | DetectSettles nat detect_outcome
  | Unmount

fun step :: "event \<Rightarrow> world \<Rightarrow> world" where
  "step (Elapse d) w = w\<lparr>now := now w + d\<rparr>"
| "step (LoadSettles ok) w = loadModel_settles ok w"
| "step (TimerFires i v) w = timer_fires i v w"
| "step (DetectSettles k outcome) w = detect_settles k outcome w"
| "step Unmount w = unmount w"

fun run :: "event list \<Rightarrow> world \<Rightarrow> world" where
  "run [] w = w"
| "run (e # es) w = run es (step e w)"

subsection \<open>States of the loop used in the proofs\<close>

text \<open>
  A world is halted when no timer is pending, no call of \<^verbatim>\<open>runDetection\<close> is suspended
  and the loader has settled: nothing is left that could enter \<^verbatim>\<open>runDetection\<close>.
\<close>

definition halted :: "world \<Rightarrow> bool" where
  "halted w \<longleftrightarrow> timers w = [] \<and> awaiting w = [] \<and> \<not> loading w"

text \<open>
  What holds of every world reached from \<open>mount\<close>: the pending timers, the suspended
  calls and the navigate calls made so far are at most one altogether, the loader was
  called once, and while it is pending nothing has happened yet.
\<close>

definition loop_inv :: "world \<Rightarrow> bool" where
  "loop_inv w \<longleftrightarrow> length (timers w) + length (awaiting w) + length (nav_log w) \<le> 1
     \<and> load_calls w = 1
     \<and> (loading w \<longrightarrow> timers w = [] \<and> awaiting w = [] \<and> nav_log w = [] \<and> ticks w = 0
          \<and> detect_calls w = 0 \<and> model w = None \<and> timerId w = None)"

text \<open>
  Two worlds of a normal session: the model has loaded and the effect's timer is due;
  then that timer has fired on a ready 480-line video and \<^verbatim>\<open>detect\<close> is in flight.
\<close>

definition started :: world where
  "started = run [LoadSettles True, Elapse 400] mount"

definition inferring :: world where
  "inferring = step (TimerFires 1 \<lparr>readyState = 4, videoHeight = 480\<rparr>) started"

section \<open>Properties of the trigger check\<close>

lemma some_iff_ex: "some f xs \<longleftrightarrow> (\<exists>x \<in> set xs. f x)"
  by (induction xs) auto

lemma distracted_iff:
  "distracted D h \<longleftrightarrow>
     (\<exists>d \<in> set D. isPhone d \<and> isHighConfidence d \<and> isUpperHalf d h)"
  by (simp add: distracted_def some_iff_ex)

lemma distracted_Nil: "distracted [] h = False"
  by (simp add: distracted_def)

text \<open>
  Claim C1. For every detection set and frame height the trigger check is true exactly
  when some detection has class "cell phone" or "remote", a score strictly above 0.65 and
  a top edge strictly above half the frame height; two detection sets with the same
  members, in any order, give the same answer.
\<close>

theorem C1_trigger_iff_exists:
  "(distracted D h \<longleftrightarrow>
      (\<exists>d \<in> set D. (className d = ''cell phone'' \<or> className d = ''remote'')
                  \<and> score d > 0.65
                  \<and> fst (snd (bbox d)) < h * 0.5))
   \<and> (\<forall>D'. set D' = set D \<longrightarrow> distracted D' h = distracted D h)"
proof -
  have gate: "(isPhone d \<and> isHighConfidence d \<and> isUpperHalf d h) =
      ((className d = ''cell phone'' \<or> className d = ''remote'')
        \<and> score d > 0.65 \<and> fst (snd (bbox d)) < h * 0.5)" for d
    by (simp add: isPhone_def isHighConfidence_def isUpperHalf_def
        CONFIDENCE_THRESHOLD_def UPPER_HALF_THRESHOLD_def case_prod_beta)
  have ex: "distracted D h \<longleftrightarrow>
      (\<exists>d \<in> set D. (className d = ''cell phone'' \<or> className d = ''remote'')
                  \<and> score d > 0.65 \<and> fst (snd (bbox d)) < h * 0.5)"
    unfolding distracted_iff gate ..
  have perm: "\<forall>D'. set D' = set D \<longrightarrow> distracted D' h = distracted D h"
    by (simp add: distracted_iff)
  from ex perm show ?thesis by blast
qed

theorem C1_trigger_iff_exists_witness:
  "set [\<lparr>className = ''book'', score = 0.9, bbox = (10, 50, 100, 150)\<rparr>,
        \<lparr>className = ''cell phone'', score = 0.9, bbox = (10, 50, 100, 150)\<rparr>]
   = set [\<lparr>className = ''cell phone'', score = 0.9, bbox = (10, 50, 100, 150)\<rparr>,
          \<lparr>className = ''book'', score = 0.9, bbox = (10, 50, 100, 150)\<rparr>]
   \<and> distracted [\<lparr>className = ''book'', score = 0.9, bbox = (10, 50, 100, 150)\<rparr>,
        \<lparr>className = ''cell phone'', score = 0.9, bbox = (10, 50, 100, 150)\<rparr>] 480
   \<and> distracted [\<lparr>className = ''cell phone'', score = 0.9, bbox = (10, 50, 100, 150)\<rparr>,
          \<lparr>className = ''book'', score = 0.9, bbox = (10, 50, 100, 150)\<rparr>] 480"
  using C1_trigger_iff_exists
    [of "[\<lparr>className = ''cell phone'', score = 0.9, bbox = (10, 50, 100, 150)\<rparr>,
          \<lparr>className = ''book'', score = 0.9, bbox = (10, 50, 100, 150)\<rparr>]" 480]
  by (simp add: insert_commute)

text \<open>
  Claim C5. A detection whose class and position match does not trigger with a score of
  exactly 0.65 and triggers with a score of 0.6501: put anywhere in a detection set, the
  first leaves the answer of the rest unchanged and the second makes it true.
\<close>

theorem C5_confidence_boundary:
  assumes "className d = ''cell phone'' \<or> className d = ''remote''"
    and "fst (snd (bbox d)) < h * 0.5"
  shows "distracted (D1 @ d\<lparr>score := 0.65\<rparr> # D2) h = distracted (D1 @ D2) h
       \<and> distracted (D1 @ d\<lparr>score := 0.6501\<rparr> # D2) h
       \<and> \<not> distracted [d\<lparr>score := 0.65\<rparr>] h"
  using assms
  by (auto simp: distracted_iff isPhone_def isHighConfidence_def isUpperHalf_def
      CONFIDENCE_THRESHOLD_def UPPER_HALF_THRESHOLD_def case_prod_beta)

theorem C5_confidence_boundary_witness:
  "(''remote'' = ''cell phone'' \<or> ''remote'' = ''remote'') \<and> (50::real) < 480 * 0.5
   \<and> distracted [\<lparr>className = ''remote'', score = 0.6501, bbox = (10, 50, 100, 150)\<rparr>] 480
   \<and> \<not> distracted [\<lparr>className = ''remote'', score = 0.65, bbox = (10, 50, 100, 150)\<rparr>] 480"
  using C5_confidence_boundary
    [of "\<lparr>className = ''remote'', score = 0.9, bbox = (10, 50, 100, 150)\<rparr>" 480 "[]" "[]"]
  by (simp add: distracted_Nil)

text \<open>
  Claim C6. A detection whose class and confidence match does not trigger when its top
  edge is exactly at half the frame height and triggers when it is one unit higher.
\<close>

theorem C6_spatial_boundary:
  assumes "className d = ''cell phone'' \<or> className d = ''remote''"
    and "score d > 0.65"
  shows "distracted (D1 @ d\<lparr>bbox := (x, 0.5 * h, w, ht)\<rparr> # D2) h = distracted (D1 @ D2) h
       \<and> distracted (D1 @ d\<lparr>bbox := (x, 0.5 * h - 1, w, ht)\<rparr> # D2) h
       \<and> \<not> distracted [d\<lparr>bbox := (x, 0.5 * h, w, ht)\<rparr>] h"
  using assms
  by (auto simp: distracted_iff isPhone_def isHighConfidence_def isUpperHalf_def
      CONFIDENCE_THRESHOLD_def UPPER_HALF_THRESHOLD_def)

theorem C6_spatial_boundary_witness:
  "(''cell phone'' = ''cell phone'' \<or> ''cell phone'' = ''remote'') \<and> (0.9::real) > 0.65
   \<and> distracted [\<lparr>className = ''cell phone'', score = 0.9, bbox = (10, 239, 100, 150)\<rparr>] 480
   \<and> \<not> distracted [\<lparr>className = ''cell phone'', score = 0.9, bbox = (10, 240, 100, 150)\<rparr>] 480"
  using C6_spatial_boundary
    [of "\<lparr>className = ''cell phone'', score = 0.9, bbox = (10, 50, 100, 150)\<rparr>"
        "[]" 10 480 100 150 "[]"]
  by (simp add: distracted_Nil)

text \<open>
  Claim C9. The trigger check reads only the class label, the score and the top edge of
  each detection, and the frame height: two detection sets that agree on these,
  detection by detection, get the same answer, whatever the left edge, width and height
  of their boxes.
\<close>

theorem C9_depends_only_on_class_score_y:
  assumes "list_all2 (\<lambda>a b. className a = className b \<and> score a = score b
                           \<and> fst (snd (bbox a)) = fst (snd (bbox b))) D D'"
  shows "distracted D h = distracted D' h"
  using assms
proof (induction rule: list_all2_induct)
  case Nil
  show ?case by simp
next
  case (Cons a D b D')
  then show ?case
    by (auto simp: distracted_def isPhone_def isHighConfidence_def isUpperHalf_def
        case_prod_beta)
qed

theorem C9_depends_only_on_class_score_y_witness:
  "distracted [\<lparr>className = ''cell phone'', score = 0.9, bbox = (10, 50, 100, 150)\<rparr>] 480
   = distracted [\<lparr>className = ''cell phone'', score = 0.9, bbox = (600, 50, 1, 9000)\<rparr>] 480"
  using C9_depends_only_on_class_score_y
    [of "[\<lparr>className = ''cell phone'', score = 0.9, bbox = (10, 50, 100, 150)\<rparr>]"
        "[\<lparr>className = ''cell phone'', score = 0.9, bbox = (600, 50, 1, 9000)\<rparr>]" 480]
  by simp

section \<open>Properties of the App shell\<close>

text \<open>
  Claim C10. A navigate call with the alert screen adds exactly one to the distraction
  count and stores the payload's insult, or "You were caught!" when the payload has no
  insult or an empty one; a navigate call with any other screen leaves the count and the
  insult as they were.
\<close>

theorem C10_navigate_frame:
  "(screen = ''alert'' \<longrightarrow>
      distractionCount (navigate screen arg a) = distractionCount a + 1
      \<and> insult (navigate screen arg a) =
          (case arg of
             None \<Rightarrow> ''You were caught!''
           | Some d \<Rightarrow> (case d ''insult'' of
                          None \<Rightarrow> ''You were caught!''
                        | Some s \<Rightarrow> if s = [] then ''You were caught!'' else s)))
   \<and> (screen \<noteq> ''alert'' \<longrightarrow>
      distractionCount (navigate screen arg a) = distractionCount a
      \<and> insult (navigate screen arg a) = insult a)"
  by (simp add: navigate_def SCREENS_ALERT_def or_default_def Let_def split: option.splits)

theorem C10_navigate_frame_witness:
  "distractionCount (navigate ''alert'' (Some [''insult'' \<mapsto> ''Seriously?'']) app_init) = 1
   \<and> insult (navigate ''alert'' (Some [''insult'' \<mapsto> ''Seriously?'']) app_init) = ''Seriously?''
   \<and> insult (navigate ''alert'' None app_init) = ''You were caught!''
   \<and> distractionCount (navigate ''stats'' None app_init) = 0
   \<and> insult (navigate ''stats'' None app_init) = []"
  using C10_navigate_frame [of "''alert''" "Some [''insult'' \<mapsto> ''Seriously?'']" app_init]
    C10_navigate_frame [of "''alert''" None app_init]
    C10_navigate_frame [of "''stats''" None app_init]
  by (simp add: app_init_def)

section \<open>Properties of the detection loop\<close>

lemma loop_cleanup_fields:
  "mounted (loop_cleanup w) = mounted w" "model (loop_cleanup w) = model w"
  "status (loop_cleanup w) = status w" "loading (loop_cleanup w) = loading w"
  "awaiting (loop_cleanup w) = awaiting w" "nav_log (loop_cleanup w) = nav_log w"
  "load_calls (loop_cleanup w) = load_calls w" "detect_calls (loop_cleanup w) = detect_calls w"
  "ticks (loop_cleanup w) = ticks w" "timerId (loop_cleanup w) = timerId w"
  "timers w = [] \<Longrightarrow> timers (loop_cleanup w) = []"
  by (simp_all add: loop_cleanup_def clearTimeout_def split: option.splits)

lemma loop_cleanup_timers_le: "length (timers (loop_cleanup w)) \<le> length (timers w)"
  by (simp add: loop_cleanup_def clearTimeout_def split: option.splits)

lemma halted_step:
  assumes "halted w"
  shows "halted (step e w)" "ticks (step e w) = ticks w" "nav_log (step e w) = nav_log w"
    "detect_calls (step e w) = detect_calls w" "load_calls (step e w) = load_calls w"
    "model (step e w) = model w" "status (step e w) = status w"
  using assms
  by (cases e; simp add: halted_def loadModel_settles_def timer_fires_def detect_settles_def
      unmount_def loop_cleanup_fields)+

lemma halted_run:
  assumes "halted w"
  shows "halted (run es w) \<and> ticks (run es w) = ticks w \<and> nav_log (run es w) = nav_log w
    \<and> detect_calls (run es w) = detect_calls w \<and> load_calls (run es w) = load_calls w
    \<and> model (run es w) = model w \<and> status (run es w) = status w"
  using assms
proof (induction es arbitrary: w)
  case Nil
  then show ?case by simp
next
  case (Cons e es)
  from halted_step[OF Cons.prems, of e] Cons.IH[of "step e w"] show ?case by simp
qed

lemma loop_inv_mount: "loop_inv mount"
  by (simp add: loop_inv_def mount_def loop_effect_def)

lemma find_filter_length:
  "find P xs = Some t \<Longrightarrow> length (filter (\<lambda>x. \<not> P x) xs) < length xs"
  by (induction xs) (auto split: if_splits simp: less_Suc_eq_le)

lemma one_token:
  assumes "length xs + length ys + length zs \<le> 1" and "length fs < length xs"
  shows "fs = [] \<and> ys = [] \<and> zs = [] \<and> length xs = 1"
proof -
  from assms have "length fs = 0 \<and> length ys = 0 \<and> length zs = 0 \<and> length xs = 1"
    by arith
  then show ?thesis by simp
qed

lemma one_token_idx:
  assumes "length xs + length ys + length zs \<le> 1" and "k < length ys"
  shows "k = 0 \<and> xs = [] \<and> zs = [] \<and> length ys = 1"
proof -
  from assms have "k = 0 \<and> length xs = 0 \<and> length zs = 0 \<and> length ys = 1"
    by arith
  then show ?thesis by simp
qed

lemma loop_inv_step:
  assumes "loop_inv w"
  shows "loop_inv (step e w)"
proof (cases e)
  case (Elapse d)
  with assms show ?thesis by (simp add: loop_inv_def)
next
  case (LoadSettles ok)
  with assms show ?thesis
    by (auto simp: loop_inv_def loadModel_settles_def loop_effect_def loop_cleanup_def setTimeout_def Let_def clearTimeout_def)
next
  case (TimerFires i v)
  show ?thesis
  proof (cases "find (\<lambda>t. timer_id t = i) (timers w)")
    case None
    with assms TimerFires show ?thesis by (simp add: timer_fires_def)
  next
    case (Some t)
    from find_filter_length[OF Some]
    have lt: "length (filter (\<lambda>t. timer_id t \<noteq> i) (timers w)) < length (timers w)" by simp
    from assms have le: "length (timers w) + length (awaiting w) + length (nav_log w) \<le> 1"
      by (simp add: loop_inv_def)
    from one_token[OF le lt] assms
    have e: "filter (\<lambda>t. timer_id t \<noteq> i) (timers w) = []"
      "awaiting w = []" "nav_log w = []" "\<not> loading w" "load_calls w = 1"
      "length (timers w) = 1"
      by (auto simp: loop_inv_def)
    with TimerFires Some show ?thesis
      by (simp add: timer_fires_def loop_inv_def runDetection_begin_def setTimeout_def Let_def)
  qed
next
  case (DetectSettles k outcome)
  show ?thesis
  proof (cases "k < length (awaiting w)")
    case False
    with assms DetectSettles show ?thesis by (simp add: detect_settles_def)
  next
    case True
    from assms have le: "length (timers w) + length (awaiting w) + length (nav_log w) \<le> 1"
      by (simp add: loop_inv_def)
    from one_token_idx[OF le True] assms True
    have e: "length (awaiting w) = 1" "k = 0" "timers w = []" "nav_log w = []"
      "\<not> loading w" "load_calls w = 1"
      by (auto simp: loop_inv_def)
    with DetectSettles show ?thesis
      by (cases outcome)
        (simp_all add: detect_settles_def loop_inv_def runDetection_resume_def setTimeout_def
          navigate_prop_def)
  qed
next
  case Unmount
  from loop_cleanup_timers_le[of w] assms Unmount show ?thesis
    by (auto simp: unmount_def loop_inv_def loop_cleanup_fields)
qed

lemma loop_inv_run: "loop_inv w \<Longrightarrow> loop_inv (run es w)"
  by (induction es arbitrary: w) (simp_all add: loop_inv_step)

lemma loop_inv_reachable: "loop_inv (run es mount)"
  by (rule loop_inv_run[OF loop_inv_mount])


lemmas world_defs = mount_def loop_effect_def loop_cleanup_def setTimeout_def clearTimeout_def
  loadModel_settles_def timer_fires_def detect_settles_def unmount_def runDetection_begin_def
  runDetection_resume_def navigate_prop_def DETECTION_INTERVAL_MS_def SCREENS_ALERT_def Let_def

lemma started_eq:
  "started =
     \<lparr>now = 400, mounted = True, model = Some CocoSsd, status = ''AI Ready. Get to work!'',
      webcamRef_current = True, loading = False, timerId = Some 1,
      timers = [\<lparr>timer_id = 1, due = 400, callback_model = Some CocoSsd\<rparr>], next_id = 2,
      awaiting = [], nav_log = [], load_calls = 1, detect_calls = 0, ticks = 0,
      unhandled_rejections = 0\<rparr>"
  by (simp add: started_def world_defs)

lemma inferring_eq:
  "inferring =
     \<lparr>now = 400, mounted = True, model = Some CocoSsd, status = ''AI Ready. Get to work!'',
      webcamRef_current = True, loading = False, timerId = Some 1,
      timers = [], next_id = 2,
      awaiting = [\<lparr>sus_model = Some CocoSsd, sus_videoHeight = 480\<rparr>], nav_log = [],
      load_calls = 1, detect_calls = 1, ticks = 1, unhandled_rejections = 0\<rparr>"
  by (simp add: inferring_def started_eq world_defs)

lemma run_append: "run (es @ es') w = run es' (run es w)"
  by (induction es arbitrary: w) simp_all

text \<open>
  Claim C7. A tick (a due timer firing) whose closure holds no model, or that finds the
  webcam ref null or the video not in ready state 4, does not call \<^verbatim>\<open>detect\<close>, suspends
  nothing, navigates nowhere, and sets exactly one new timer 400 ms ahead: the loop stays
  scheduled.
\<close>

theorem C7_guard_skips_inference:
  assumes "find (\<lambda>t. timer_id t = i) (timers w) = Some t"
    and "due t \<le> now w"
    and "callback_model t = None \<or> \<not> webcamRef_current w \<or> readyState v \<noteq> 4"
  shows "ticks (step (TimerFires i v) w) = ticks w + 1
       \<and> detect_calls (step (TimerFires i v) w) = detect_calls w
       \<and> awaiting (step (TimerFires i v) w) = awaiting w
       \<and> nav_log (step (TimerFires i v) w) = nav_log w
       \<and> timers (step (TimerFires i v) w) =
           filter (\<lambda>t. timer_id t \<noteq> i) (timers w)
           @ [\<lparr>timer_id = next_id w, due = now w + 400, callback_model = callback_model t\<rparr>]"
  using assms
  by (auto simp: timer_fires_def runDetection_begin_def setTimeout_def Let_def
      DETECTION_INTERVAL_MS_def)

theorem C7_guard_skips_inference_witness:
  "find (\<lambda>t. timer_id t = 1) (timers started)
     = Some \<lparr>timer_id = 1, due = 400, callback_model = Some CocoSsd\<rparr>
   \<and> (400::nat) \<le> now started
   \<and> readyState \<lparr>readyState = 2, videoHeight = 0\<rparr> \<noteq> 4
   \<and> detect_calls (step (TimerFires 1 \<lparr>readyState = 2, videoHeight = 0\<rparr>) started) = 0
   \<and> timers (step (TimerFires 1 \<lparr>readyState = 2, videoHeight = 0\<rparr>) started)
       = [\<lparr>timer_id = 2, due = 800, callback_model = Some CocoSsd\<rparr>]"
  using C7_guard_skips_inference
    [of 1 started "\<lparr>timer_id = 1, due = 400, callback_model = Some CocoSsd\<rparr>"
        "\<lparr>readyState = 2, videoHeight = 0\<rparr>"]
  by (simp add: started_eq)

text \<open>
  Claim C3. In any world reached from \<open>mount\<close>, when the detections a suspended tick
  receives satisfy the trigger check, the tick makes one navigate call, to the alert
  screen with the insult payload, sets no timer, and whatever events follow, that call
  stays the only one, no timer is ever pending and no further tick is entered.
\<close>

theorem C3_trigger_exactly_once:
  assumes "w = run es mount"
    and "k < length (awaiting w)"
    and "distracted predictions (sus_videoHeight (awaiting w ! k))"
  shows "nav_log (step (DetectSettles k (Resolves predictions)) w)
           = [(''alert'', Some [''insult'' \<mapsto> mockInsult])]
       \<and> timers (step (DetectSettles k (Resolves predictions)) w) = []
       \<and> (\<forall>es'. nav_log (run es' (step (DetectSettles k (Resolves predictions)) w))
                   = [(''alert'', Some [''insult'' \<mapsto> mockInsult])]
               \<and> ticks (run es' (step (DetectSettles k (Resolves predictions)) w)) = ticks w
               \<and> timers (run es' (step (DetectSettles k (Resolves predictions)) w)) = []
               \<and> awaiting (run es' (step (DetectSettles k (Resolves predictions)) w)) = [])"
proof -
  let ?w' = "step (DetectSettles k (Resolves predictions)) w"
  from assms(1) have i: "loop_inv w" by (simp add: loop_inv_reachable)
  then have le: "length (timers w) + length (awaiting w) + length (nav_log w) \<le> 1"
    by (simp add: loop_inv_def)
  from one_token_idx[OF le assms(2)] i assms(2)
  have e: "k = 0" "timers w = []" "nav_log w = []" "length (awaiting w) = 1" "\<not> loading w"
    by (auto simp: loop_inv_def)
  from e assms(2,3) have n: "nav_log ?w' = [(''alert'', Some [''insult'' \<mapsto> mockInsult])]"
    and t: "timers ?w' = []" and a: "awaiting ?w' = []" and l: "\<not> loading ?w'"
    and k: "ticks ?w' = ticks w"
    by (simp_all add: detect_settles_def runDetection_resume_def navigate_prop_def
        SCREENS_ALERT_def)
  from t a l have "halted ?w'" by (simp add: halted_def)
  from halted_run[OF this] n t k show ?thesis by (simp add: halted_def)
qed

theorem C3_trigger_exactly_once_witness:
  "inferring = run [LoadSettles True, Elapse 400,
                    TimerFires 1 \<lparr>readyState = 4, videoHeight = 480\<rparr>] mount
   \<and> 0 < length (awaiting inferring)
   \<and> distracted [\<lparr>className = ''cell phone'', score = 0.9, bbox = (10, 50, 100, 150)\<rparr>]
        (sus_videoHeight (awaiting inferring ! 0))
   \<and> nav_log (run [Elapse 400, TimerFires 2 \<lparr>readyState = 4, videoHeight = 480\<rparr>, Unmount]
        (step (DetectSettles 0
           (Resolves [\<lparr>className = ''cell phone'', score = 0.9, bbox = (10, 50, 100, 150)\<rparr>]))
           inferring))
       = [(''alert'', Some [''insult'' \<mapsto> mockInsult])]
   \<and> ticks (run [Elapse 400, TimerFires 2 \<lparr>readyState = 4, videoHeight = 480\<rparr>, Unmount]
        (step (DetectSettles 0
           (Resolves [\<lparr>className = ''cell phone'', score = 0.9, bbox = (10, 50, 100, 150)\<rparr>]))
           inferring)) = 1"
proof -
  let ?ps = "[\<lparr>className = ''cell phone'', score = 0.9, bbox = (10, 50, 100, 150)\<rparr>]"
  have r: "inferring = run [LoadSettles True, Elapse 400,
                    TimerFires 1 \<lparr>readyState = 4, videoHeight = 480\<rparr>] mount"
    using run_append[of "[LoadSettles True, Elapse 400]"
        "[TimerFires 1 \<lparr>readyState = 4, videoHeight = 480\<rparr>]" mount]
    by (simp add: inferring_def started_def)
  have k: "0 < length (awaiting inferring)" by (simp add: inferring_eq)
  have d: "distracted ?ps (sus_videoHeight (awaiting inferring ! 0))"
    by (simp add: inferring_eq distracted_def isPhone_def isHighConfidence_def
        isUpperHalf_def CONFIDENCE_THRESHOLD_def UPPER_HALF_THRESHOLD_def)
  have t: "ticks inferring = 1" by (simp add: inferring_eq)
  let ?es' = "[Elapse 400, TimerFires 2 \<lparr>readyState = 4, videoHeight = 480\<rparr>, Unmount]"
  let ?w' = "step (DetectSettles 0 (Resolves ?ps)) inferring"
  from C3_trigger_exactly_once[OF r k d]
  have f: "nav_log (run ?es' ?w') = [(''alert'', Some [''insult'' \<mapsto> mockInsult])]
      \<and> ticks (run ?es' ?w') = ticks inferring"
    by blast
  from r k d f show ?thesis unfolding t by blast
qed


text \<open>
  Claim C8. When the loader fails in a world reached from \<open>mount\<close>, no model is
  stored, the status becomes the error text (the component being mounted), and whatever
  events follow, no tick is entered, \<^verbatim>\<open>detect\<close> is never called, no timer is pending,
  the loader is not called again and the status stays.
\<close>

theorem C8_load_failure_never_starts_loop:
  assumes "w = run es mount" and "loading w"
  shows "model (step (LoadSettles False) w) = None
       \<and> timers (step (LoadSettles False) w) = []
       \<and> (mounted w \<longrightarrow>
            status (step (LoadSettles False) w) = ''Error loading AI. Check console.'')
       \<and> (\<forall>es'. ticks (run es' (step (LoadSettles False) w)) = 0
               \<and> detect_calls (run es' (step (LoadSettles False) w)) = 0
               \<and> timers (run es' (step (LoadSettles False) w)) = []
               \<and> load_calls (run es' (step (LoadSettles False) w)) = 1
               \<and> model (run es' (step (LoadSettles False) w)) = None
               \<and> status (run es' (step (LoadSettles False) w))
                   = status (step (LoadSettles False) w))"
proof -
  let ?w' = "step (LoadSettles False) w"
  from assms(1) have "loop_inv w" by (simp add: loop_inv_reachable)
  with assms(2) have e: "timers w = []" "awaiting w = []" "ticks w = 0" "detect_calls w = 0"
    "model w = None" "load_calls w = 1"
    by (simp_all add: loop_inv_def)
  from e assms(2) have f: "timers ?w' = []" "awaiting ?w' = []" "ticks ?w' = 0"
    "detect_calls ?w' = 0" "model ?w' = None" "load_calls ?w' = 1" "\<not> loading ?w'"
    "mounted w \<longrightarrow> status ?w' = ''Error loading AI. Check console.''"
    by (simp_all add: loadModel_settles_def Let_def)
  then have "halted ?w'" by (simp add: halted_def)
  from halted_run[OF this] f show ?thesis by (simp add: halted_def)
qed

theorem C8_load_failure_never_starts_loop_witness:
  "loading (run [Elapse 250] mount) \<and> mounted (run [Elapse 250] mount)
   \<and> status (step (LoadSettles False) (run [Elapse 250] mount))
       = ''Error loading AI. Check console.''
   \<and> ticks (run [Elapse 400, TimerFires 1 \<lparr>readyState = 4, videoHeight = 480\<rparr>]
        (step (LoadSettles False) (run [Elapse 250] mount))) = 0"
proof -
  let ?w = "run [Elapse 250] mount"
  let ?es' = "[Elapse 400, TimerFires 1 \<lparr>readyState = 4, videoHeight = 480\<rparr>]"
  have l: "loading ?w" and m: "mounted ?w" by (simp_all add: world_defs)
  from C8_load_failure_never_starts_loop[OF refl l] m
  have "status (step (LoadSettles False) ?w) = ''Error loading AI. Check console.''
      \<and> ticks (run ?es' (step (LoadSettles False) ?w)) = 0"
    by blast
  with l m show ?thesis by blast
qed

text \<open>
  Claim C2, at a rejecting inference call. The model loads, the first tick fires on a ready
  video and \<^verbatim>\<open>detect\<close> rejects: the rejection is left unhandled, no timer is set, and
  whatever events follow, the first tick remains the only one.
\<close>

theorem C2_rejected_inference_halts_loop:
  "unhandled_rejections
     (run [LoadSettles True, Elapse 400, TimerFires 1 \<lparr>readyState = 4, videoHeight = 480\<rparr>,
           DetectSettles 0 Rejects] mount) = 1
   \<and> timers
     (run [LoadSettles True, Elapse 400, TimerFires 1 \<lparr>readyState = 4, videoHeight = 480\<rparr>,
           DetectSettles 0 Rejects] mount) = []
   \<and> (\<forall>es. ticks (run es
     (run [LoadSettles True, Elapse 400, TimerFires 1 \<lparr>readyState = 4, videoHeight = 480\<rparr>,
           DetectSettles 0 Rejects] mount)) = 1)"
proof -
  let ?w = "run [LoadSettles True, Elapse 400,
       TimerFires 1 \<lparr>readyState = 4, videoHeight = 480\<rparr>, DetectSettles 0 Rejects] mount"
  have r: "?w = step (DetectSettles 0 Rejects) inferring"
    by (simp add: inferring_def started_def)
  have f: "unhandled_rejections ?w = 1" "timers ?w = []" "awaiting ?w = []" "\<not> loading ?w"
    "ticks ?w = 1"
    unfolding r by (simp_all add: inferring_eq detect_settles_def runDetection_resume_def)
  then have "halted ?w" by (simp add: halted_def)
  from halted_run[OF this] f show ?thesis by simp
qed

text \<open>
  Claim C4, at an unmount in the gap after the first tick. The first tick finds nothing and
  sets timer 2 for time 800; the component is unmounted at time 500, whose cleanup clears
  handle 1 only; timer 2 is still pending, fires at 800, enters \<^verbatim>\<open>runDetection\<close> and
  sets timer 3.
\<close>

theorem C4_unmount_leaves_rescheduled_tick:
  "\<not> mounted
      (run [LoadSettles True, Elapse 400, TimerFires 1 \<lparr>readyState = 4, videoHeight = 480\<rparr>,
            DetectSettles 0 (Resolves []), Elapse 100, Unmount] mount)
   \<and> ticks
      (run [LoadSettles True, Elapse 400, TimerFires 1 \<lparr>readyState = 4, videoHeight = 480\<rparr>,
            DetectSettles 0 (Resolves []), Elapse 100, Unmount] mount) = 1
   \<and> timers
      (run [LoadSettles True, Elapse 400, TimerFires 1 \<lparr>readyState = 4, videoHeight = 480\<rparr>,
            DetectSettles 0 (Resolves []), Elapse 100, Unmount] mount)
       = [\<lparr>timer_id = 2, due = 800, callback_model = Some CocoSsd\<rparr>]
   \<and> ticks
      (run [LoadSettles True, Elapse 400, TimerFires 1 \<lparr>readyState = 4, videoHeight = 480\<rparr>,
            DetectSettles 0 (Resolves []), Elapse 100, Unmount,
            Elapse 300, TimerFires 2 \<lparr>readyState = 4, videoHeight = 480\<rparr>] mount) = 2
   \<and> timers
      (run [LoadSettles True, Elapse 400, TimerFires 1 \<lparr>readyState = 4, videoHeight = 480\<rparr>,
            DetectSettles 0 (Resolves []), Elapse 100, Unmount,
            Elapse 300, TimerFires 2 \<lparr>readyState = 4, videoHeight = 480\<rparr>] mount)
       = [\<lparr>timer_id = 3, due = 1200, callback_model = Some CocoSsd\<rparr>]"
proof -
  have r: "run (LoadSettles True # Elapse 400
             # TimerFires 1 \<lparr>readyState = 4, videoHeight = 480\<rparr> # es) mount
           = run es inferring" for es
    by (simp add: inferring_def started_def)
  show ?thesis
    unfolding r by (simp add: inferring_eq world_defs distracted_Nil)
qed

end
